theory Spec2Isabelle
  imports Complex_Main "HOL-Library.Word" "HOL-Library.Log_Nat"
begin

section \<open>The oscilloscope client of oscilloscope-interface.py\<close>

text \<open>
  The class \<open>Oscilloscope\<close> of \<^verbatim>\<open>src/oscilloscope-interface.py\<close> (lines 16 to 152) is
  embedded method by method. The instrument is reached through pyvisa, which is not part
  of the repository: it is a parameter of every method (a \<open>transport\<close>), and every call
  made on it is recorded, in order, in the session. An exception is a value \<open>Inl e\<close>; a
  method returns its result together with the session it leaves behind, also when it
  raises. Console output (\<open>print\<close>) is not modelled: no return value, exception or
  instrument call depends on it.
\<close>

subsection \<open>Exceptions\<close>

datatype error =
    Exception string
  | AttributeError
  | ValueError
  | OverflowError
  | ZeroDivisionError
  | VisaIOError string

text \<open>Sequencing of computations that may raise: the first exception wins.\<close>

definition and_then :: "error + 'a \<Rightarrow> ('a \<Rightarrow> error + 'b) \<Rightarrow> error + 'b" where
  "and_then r f = (case r of Inl e \<Rightarrow> Inl e | Inr a \<Rightarrow> f a)"

subsection \<open>Strings: \<open>str.strip\<close>, \<open>str.split\<close> and the formatting of an \<open>int\<close>\<close>

text \<open>
  Replies are ASCII text (pyvisa decodes them as ASCII), so the white space of
  \<open>str.strip\<close> is the ASCII white space of \<open>str.isspace\<close>: the codes 9 to 13 and 28
  to 32.
\<close>

definition py_isspace :: "char \<Rightarrow> bool" where
  "py_isspace c = (let n = (of_char c :: nat) in (9 \<le> n \<and> n \<le> 13) \<or> (28 \<le> n \<and> n \<le> 32))"

definition str_strip :: "string \<Rightarrow> string" where
  "str_strip s = rev (dropWhile py_isspace (rev (dropWhile py_isspace s)))"

fun str_split :: "char \<Rightarrow> string \<Rightarrow> string list" where
  "str_split sep [] = [[]]"
| "str_split sep (c # cs) =
     (if c = sep then [] # str_split sep cs
      else (case str_split sep cs of [] \<Rightarrow> [[c]] | w # ws \<Rightarrow> (c # w) # ws))"

fun str_nat :: "nat \<Rightarrow> string" where
  "str_nat n =
     (if n < 10 then [char_of (48 + n)] else str_nat (n div 10) @ [char_of (48 + n mod 10)])"

declare str_nat.simps [simp del]

definition str_int :: "int \<Rightarrow> string" where
  "str_int n = (if n < 0 then CHR ''-'' # str_nat (nat (- n)) else str_nat (nat n))"

subsection \<open>Floats: IEEE 754 binary64\<close>

text \<open>
  A Python \<open>float\<close> and an element of a numpy \<open>float64\<close> array is a binary64 value: a
  finite one is the rational it denotes, and every operation returns the exact result
  rounded to the nearest binary64 value, ties to even (\<open>rnd\<close>), an infinity beyond the
  range. The sign of a zero is not represented: \<open>-0.0\<close> and \<open>0.0\<close> are the one value
  \<open>Finite 0\<close>, as they are equal for every comparison the program makes.
\<close>

datatype pyfloat = Finite rat | PInf | NInf | NaN

definition pow2 :: "int \<Rightarrow> rat" where
  "pow2 k = (if 0 \<le> k then 2 ^ nat k else 1 / 2 ^ nat (- k))"

definition round_half_even :: "int \<Rightarrow> int \<Rightarrow> int" where
  "round_half_even num den =
     (let m = num div den; r = num mod den in
      if 2 * r < den then m
      else if den < 2 * r then m + 1
      else if even m then m else m + 1)"

text \<open>\<open>ilog2 a d\<close> is the binary exponent of \<open>a / d\<close>: \<open>2 ^ e \<le> a / d < 2 ^ (e + 1)\<close>.\<close>

definition ilog2 :: "int \<Rightarrow> int \<Rightarrow> int" where
  "ilog2 a d =
     (let k = bitlen a - bitlen d in
      if (if 0 \<le> k then d * 2 ^ nat k \<le> a else d \<le> a * 2 ^ nat (- k)) then k else k - 1)"

text \<open>
  Rounding to binary64: 53 significant bits, the least exponent -1022 (below it the
  spacing stays \<open>2 ^ -1074\<close>: subnormal numbers), overflow past exponent 1023.
\<close>

definition rnd :: "rat \<Rightarrow> pyfloat" where
  "rnd q =
     (let (n, d) = quotient_of q; a = \<bar>n\<bar> in
      if a = 0 then Finite 0
      else
        let e = max (ilog2 a d) (- 1022);
            s = e - 52;
            m = (if 0 \<le> s then round_half_even a (d * 2 ^ nat s)
                 else round_half_even (a * 2 ^ nat (- s)) d);
            e' = (if m = 2 ^ 53 then e + 1 else e)
        in if 1023 < e' then (if 0 < n then PInf else NInf)
           else Finite (of_int (sgn n * m) * pow2 s))"

definition float_of_int :: "int \<Rightarrow> pyfloat" where
  "float_of_int n = rnd (of_int n)"

fun fneg :: "pyfloat \<Rightarrow> pyfloat" where
  "fneg (Finite a) = Finite (- a)"
| "fneg PInf = NInf"
| "fneg NInf = PInf"
| "fneg NaN = NaN"

fun fadd :: "pyfloat \<Rightarrow> pyfloat \<Rightarrow> pyfloat" where
  "fadd NaN y = NaN"
| "fadd x NaN = NaN"
| "fadd (Finite a) (Finite b) = rnd (a + b)"
| "fadd PInf NInf = NaN"
| "fadd NInf PInf = NaN"
| "fadd PInf y = PInf"
| "fadd NInf y = NInf"
| "fadd (Finite a) y = y"

definition fsub :: "pyfloat \<Rightarrow> pyfloat \<Rightarrow> pyfloat" where
  "fsub x y = fadd x (fneg y)"

fun fsgn :: "pyfloat \<Rightarrow> int" where
  "fsgn (Finite a) = (if a < 0 then - 1 else if a = 0 then 0 else 1)"
| "fsgn PInf = 1"
| "fsgn NInf = - 1"
| "fsgn NaN = 0"

definition signed_inf :: "int \<Rightarrow> pyfloat" where
  "signed_inf s = (if s = 0 then NaN else if 0 < s then PInf else NInf)"

fun fmul :: "pyfloat \<Rightarrow> pyfloat \<Rightarrow> pyfloat" where
  "fmul NaN y = NaN"
| "fmul x NaN = NaN"
| "fmul (Finite a) (Finite b) = rnd (a * b)"
| "fmul x y = signed_inf (fsgn x * fsgn y)"

text \<open>
  Division. The program divides by the constant 25.0 and by a probe attenuation that
  Python has checked not to be zero (\<open>py_truediv\<close>), so the case of a zero divisor is
  never evaluated; it is given the value IEEE 754 gives for the divisor \<open>+0.0\<close>.
\<close>

fun fdiv :: "pyfloat \<Rightarrow> pyfloat \<Rightarrow> pyfloat" where
  "fdiv NaN y = NaN"
| "fdiv x NaN = NaN"
| "fdiv (Finite a) (Finite b) = (if b = 0 then signed_inf (fsgn (Finite a)) else rnd (a / b))"
| "fdiv (Finite a) y = Finite 0"
| "fdiv x (Finite b) = signed_inf (fsgn x * (if b < 0 then - 1 else 1))"
| "fdiv x y = NaN"

text \<open>Python's \<open>x / y\<close> on two floats raises when \<open>y == 0.0\<close>, whatever \<open>x\<close> is.\<close>

definition py_truediv :: "pyfloat \<Rightarrow> pyfloat \<Rightarrow> error + pyfloat" where
  "py_truediv x y = (if y = Finite 0 then Inl ZeroDivisionError else Inr (fdiv x y))"

text \<open>
  \<open>int(x)\<close> of a float truncates towards zero; it raises \<open>ValueError\<close> on a NaN and
  \<open>OverflowError\<close> on an infinity.
\<close>

fun py_int :: "pyfloat \<Rightarrow> error + int" where
  "py_int (Finite a) = Inr (if 0 \<le> a then \<lfloor>a\<rfloor> else - \<lfloor>- a\<rfloor>)"
| "py_int PInf = Inl OverflowError"
| "py_int NInf = Inl OverflowError"
| "py_int NaN = Inl ValueError"

subsection \<open>\<open>float(s)\<close> of a string\<close>

text \<open>
  \<open>float\<close> strips white space, which for it is the white space of C (the codes 9 to 13
  and the blank, not the separators 28 to 31), then reads an optional sign followed by \<open>inf\<close>,
  \<open>infinity\<close> or \<open>nan\<close> (in any case), or by a decimal number: digits with an optional
  point, at least one digit in all, and an optional exponent (\<open>e\<close> or \<open>E\<close>, an optional
  sign, at least one digit). An underscore may stand between two digits. The whole
  string must be read; the value is the decimal number, correctly rounded. Anything else
  raises \<open>ValueError\<close>.
\<close>

definition c_isspace :: "char \<Rightarrow> bool" where
  "c_isspace c = (let n = (of_char c :: nat) in (9 \<le> n \<and> n \<le> 13) \<or> n = 32)"

definition is_digit :: "char \<Rightarrow> bool" where
  "is_digit c = (let n = (of_char c :: nat) in 48 \<le> n \<and> n \<le> 57)"

definition ascii_lower :: "char \<Rightarrow> char" where
  "ascii_lower c = (let n = (of_char c :: nat) in if 65 \<le> n \<and> n \<le> 90 then char_of (n + 32) else c)"

fun underscores_ok :: "bool \<Rightarrow> string \<Rightarrow> bool" where
  "underscores_ok after_digit [] = True"
| "underscores_ok after_digit (c # cs) =
     (if c = CHR ''_'' then after_digit \<and> (case cs of [] \<Rightarrow> False | c' # _ \<Rightarrow> is_digit c') \<and> underscores_ok False cs
      else underscores_ok (is_digit c) cs)"

definition decimal :: "string \<Rightarrow> nat" where
  "decimal ds = foldl (\<lambda>a c. 10 * a + (of_char c - 48)) 0 ds"

definition take_sign :: "string \<Rightarrow> bool \<times> string" where
  "take_sign s =
     (case s of
        [] \<Rightarrow> (False, [])
      | c # cs \<Rightarrow> if c = CHR ''-'' then (True, cs) else if c = CHR ''+'' then (False, cs) else (False, s))"

definition pow10 :: "int \<Rightarrow> rat" where
  "pow10 k = (if 0 \<le> k then 10 ^ nat k else 1 / 10 ^ nat (- k))"

definition parse_exponent :: "string \<Rightarrow> int option" where
  "parse_exponent s =
     (case s of
        [] \<Rightarrow> Some 0
      | c # cs \<Rightarrow>
          if c = CHR ''e'' \<or> c = CHR ''E'' then
            (let (neg, ds) = take_sign cs in
             if ds = [] \<or> \<not> list_all is_digit ds then None
             else Some (if neg then - int (decimal ds) else int (decimal ds)))
          else None)"

definition parse_decimal :: "string \<Rightarrow> rat option" where
  "parse_decimal s =
     (let d1 = takeWhile is_digit s; r1 = dropWhile is_digit s;
          (d2, r2) = (case r1 of
                        [] \<Rightarrow> ([], r1)
                      | c # cs \<Rightarrow> if c = CHR ''.'' then (takeWhile is_digit cs, dropWhile is_digit cs)
                                  else ([], r1))
      in if d1 = [] \<and> d2 = [] then None
         else (case parse_exponent r2 of
                 None \<Rightarrow> None
               | Some ex \<Rightarrow> Some (of_nat (decimal (d1 @ d2)) * pow10 (ex - int (length d2)))))"

definition py_float :: "string \<Rightarrow> error + pyfloat" where
  "py_float text =
     (let s = rev (dropWhile c_isspace (rev (dropWhile c_isspace text))) in
      if \<not> underscores_ok False s then Inl ValueError
      else
        let (neg, body) = take_sign (filter (\<lambda>c. c \<noteq> CHR ''_'') s);
            word = map ascii_lower body
        in if word = ''inf'' \<or> word = ''infinity'' then Inr (if neg then NInf else PInf)
           else if word = ''nan'' then Inr NaN
           else (case parse_decimal body of
                   None \<Rightarrow> Inl ValueError
                 | Some q \<Rightarrow> Inr (rnd (if neg then - q else q))))"

subsection \<open>numpy: the index array and its arithmetic\<close>

text \<open>
  \<open>np.arange(n)\<close> is an \<open>int64\<close> array. Subtracting a Python \<open>int\<close> from it converts
  the \<open>int\<close> to \<open>int64\<close> and subtracts in \<open>int64\<close>, wrapping around. Multiplying the
  result by a Python float converts each element to \<open>float64\<close>. An \<open>int\<close> that does not
  fit \<open>int64\<close> raises \<open>OverflowError\<close> in numpy 2, which is what is written here; older
  versions change the type of the array instead. Every property below that speaks of a
  run that returns its samples is stated for a reference index that fits.
\<close>

definition np_arange :: "nat \<Rightarrow> int list" where
  "np_arange n = map int [0..<n]"

definition wrap64 :: "int \<Rightarrow> int" where
  "wrap64 n = (n + 2 ^ 63) mod 2 ^ 64 - 2 ^ 63"

definition np_sub_int :: "int list \<Rightarrow> int \<Rightarrow> error + int list" where
  "np_sub_int xs r =
     (if r < - (2 ^ 63) \<or> 2 ^ 63 \<le> r then Inl OverflowError
      else Inr (map (\<lambda>x. wrap64 (x - r)) xs))"

subsection \<open>The instrument and the session\<close>

text \<open>
  A \<open>transport\<close> is pyvisa as the program uses it: \<open>open_resource\<close> of the resource
  manager, and \<open>write\<close>, \<open>query\<close> and \<open>query_binary_values\<close> (with \<open>datatype='B'\<close>:
  unsigned bytes) of the resource it returns. Each may raise, and what it answers may
  depend on every call made before, which it is given. \<open>close\<close> has no answer: pyvisa's
  \<open>close\<close> returns nothing and is taken not to raise.
\<close>

type_synonym handle = nat

datatype call =
    OpenResource string
  | Write handle string
  | Query handle string
  | QueryBinaryValues handle string
  | Close handle

record transport =
  visa_open_resource :: "call list \<Rightarrow> string \<Rightarrow> error + handle"
  visa_write :: "call list \<Rightarrow> handle \<Rightarrow> string \<Rightarrow> error + unit"
  visa_query :: "call list \<Rightarrow> handle \<Rightarrow> string \<Rightarrow> error + string"
  visa_query_binary_values :: "call list \<Rightarrow> handle \<Rightarrow> string \<Rightarrow> error + 8 word list"

text \<open>
  The object: \<open>self.resource_name\<close>, \<open>self.inst\<close> (\<open>None\<close> until connected), and the calls
  made on the transport so far, oldest first. \<open>self.rm\<close>, the resource manager, is the
  transport. \<open>init\<close> is the constructor (lines 21 to 29).
\<close>

record oscilloscope =
  resource_name :: string
  inst :: "handle option"
  calls :: "call list"

definition init :: "string \<Rightarrow> oscilloscope" where
  "init name = \<lparr>resource_name = name, inst = None, calls = []\<rparr>"

type_synonym 'a operation = "oscilloscope \<Rightarrow> (error + 'a) \<times> oscilloscope"

definition next_do :: "'a operation \<Rightarrow> ('a \<Rightarrow> 'b operation) \<Rightarrow> 'b operation" where
  "next_do m f s = (case m s of (Inl e, s') \<Rightarrow> (Inl e, s') | (Inr a, s') \<Rightarrow> f a s')"

definition pure :: "error + 'a \<Rightarrow> 'a operation" where
  "pure r s = (r, s)"

text \<open>
  \<open>self.inst.write(cmd)\<close>, \<open>self.inst.query(cmd)\<close> and
  \<open>self.inst.query_binary_values(cmd, datatype='B', container=np.array)\<close>: on
  \<open>self.inst = None\<close> the attribute lookup raises \<open>AttributeError\<close> and nothing is sent.
\<close>

definition inst_write :: "transport \<Rightarrow> string \<Rightarrow> unit operation" where
  "inst_write T cmd s =
     (case inst s of
        None \<Rightarrow> (Inl AttributeError, s)
      | Some h \<Rightarrow> (visa_write T (calls s) h cmd, s\<lparr>calls := calls s @ [Write h cmd]\<rparr>))"

definition inst_query :: "transport \<Rightarrow> string \<Rightarrow> string operation" where
  "inst_query T cmd s =
     (case inst s of
        None \<Rightarrow> (Inl AttributeError, s)
      | Some h \<Rightarrow> (visa_query T (calls s) h cmd, s\<lparr>calls := calls s @ [Query h cmd]\<rparr>))"

definition inst_query_binary_values :: "transport \<Rightarrow> string \<Rightarrow> (8 word list) operation" where
  "inst_query_binary_values T cmd s =
     (case inst s of
        None \<Rightarrow> (Inl AttributeError, s)
      | Some h \<Rightarrow>
          (visa_query_binary_values T (calls s) h cmd, s\<lparr>calls := calls s @ [QueryBinaryValues h cmd]\<rparr>))"

subsection \<open>The methods of \<open>Oscilloscope\<close>\<close>

text \<open>
  \<open>connect\<close> (lines 31 to 37) has no \<open>return\<close>: what it returns is Python's \<open>None\<close>,
  written \<open>None\<close> here too, where \<open>Some idn\<close> would be a returned string. The identity
  string is only printed. The handle is stored in \<open>self.inst\<close> before the identity query
  is made.
\<close>

definition connect :: "transport \<Rightarrow> (string option) operation" where
  "connect T s =
     (let s1 = s\<lparr>calls := calls s @ [OpenResource (resource_name s)]\<rparr> in
      case visa_open_resource T (calls s) (resource_name s) of
        Inl e \<Rightarrow> (Inl e, s1)
      | Inr h \<Rightarrow> next_do (inst_query T ''*IDN?'') (\<lambda>idn. pure (Inr None)) (s1\<lparr>inst := Some h\<rparr>))"


text \<open>
  The setters (lines 48 to 85). A float argument is formatted into the command by
  Python's float formatting, which no property below depends on: it is the parameter
  \<open>str_float\<close>.
\<close>

definition set_channel :: "transport \<Rightarrow> int \<Rightarrow> unit operation" where
  "set_channel T channel = inst_write T ('':WAV:SOUR CHAN'' @ str_int channel)"

definition set_timebase :: "(pyfloat \<Rightarrow> string) \<Rightarrow> transport \<Rightarrow> pyfloat \<Rightarrow> unit operation" where
  "set_timebase str_float T time_per_div = inst_write T ('':TIM:SCAL '' @ str_float time_per_div)"

definition set_voltage_scale :: "(pyfloat \<Rightarrow> string) \<Rightarrow> transport \<Rightarrow> int \<Rightarrow> pyfloat \<Rightarrow> unit operation" where
  "set_voltage_scale str_float T channel volts_per_div =
     inst_write T ('':CHAN'' @ str_int channel @ '':SCAL '' @ str_float volts_per_div)"

definition set_trigger ::
  "(pyfloat \<Rightarrow> string) \<Rightarrow> transport \<Rightarrow> string \<Rightarrow> int \<Rightarrow> string \<Rightarrow> pyfloat \<Rightarrow> unit operation" where
  "set_trigger str_float T mode source slope level =
     next_do (inst_write T ('':TRIG:MODE '' @ mode)) (\<lambda>_.
     next_do (inst_write T ('':TRIG:EDGE:SOUR CHAN'' @ str_int source)) (\<lambda>_.
     next_do (inst_write T ('':TRIG:EDGE:SLOP '' @ slope)) (\<lambda>_.
     inst_write T ('':TRIG:LEV CHAN'' @ str_int source @ '','' @ str_float level))))"

text \<open>
  \<open>get_waveform\<close>, lines 110 to 125: the preamble is stripped and split at the commas,
  its first ten fields are unpacked (\<open>ValueError\<close> when there are fewer), and six of them
  are converted, in this order. The first four are bound and never read.
\<close>

definition get_waveform_preamble ::
  "string \<Rightarrow> error + (pyfloat \<times> pyfloat \<times> int \<times> pyfloat \<times> pyfloat \<times> int)" where
  "get_waveform_preamble preamble =
     (let preamble_fields = str_split CHR '','' (str_strip preamble) in
      case take 10 preamble_fields of
        [format_code, type_code, points, count, f4, f5, f6, f7, f8, f9] \<Rightarrow>
          and_then (py_float f4) (\<lambda>x_increment.
          and_then (py_float f5) (\<lambda>x_origin.
          and_then (and_then (py_float f6) py_int) (\<lambda>x_reference.
          and_then (py_float f7) (\<lambda>y_increment.
          and_then (py_float f8) (\<lambda>y_origin.
          and_then (and_then (py_float f9) py_int) (\<lambda>y_reference.
          Inr (x_increment, x_origin, x_reference, y_increment, y_origin, y_reference)))))))
      | _ \<Rightarrow> Inl ValueError)"

text \<open>
  \<open>get_waveform\<close>, lines 140 to 152: the conversion of the raw bytes. It returns
  \<open>(time, voltage)\<close>.
\<close>

definition get_waveform_decode ::
  "8 word list \<Rightarrow> pyfloat \<Rightarrow> pyfloat \<Rightarrow> int \<Rightarrow> pyfloat \<Rightarrow> pyfloat \<Rightarrow> error + (pyfloat list \<times> pyfloat list)" where
  "get_waveform_decode data x_increment x_origin x_reference vertical_scale probe_attenuation =
     and_then (py_truediv vertical_scale probe_attenuation) (\<lambda>adjusted_vertical_scale.
       let voltage =
             map (\<lambda>d. fmul (fdiv (fsub (float_of_int (uint d)) (Finite 130)) (Finite 25))
                        adjusted_vertical_scale) data
       in and_then (np_sub_int (np_arange (length data)) x_reference) (\<lambda>shifted.
            Inr (map (\<lambda>k. fadd (fmul (float_of_int k) x_increment) x_origin) shifted, voltage)))"

text \<open>\<open>get_waveform\<close> (lines 87 to 152).\<close>

definition get_waveform :: "transport \<Rightarrow> int \<Rightarrow> (pyfloat list \<times> pyfloat list) operation" where
  "get_waveform T channel s =
     (if inst s = None then (Inl (Exception ''Oscilloscope not connected.''), s)
      else
       (next_do (inst_write T ('':WAV:SOUR CHAN'' @ str_int channel)) (\<lambda>_.
        next_do (inst_write T '':WAV:FORM BYTE'') (\<lambda>_.
        next_do (inst_write T '':WAV:MODE NORMAL'') (\<lambda>_.
        next_do (inst_query T '':WAV:FORM?'') (\<lambda>actual_format.
        next_do (inst_query T '':WAV:PRE?'') (\<lambda>preamble.
        next_do (pure (get_waveform_preamble preamble))
          (\<lambda>(x_increment, x_origin, x_reference, y_increment, y_origin, y_reference).
        next_do (inst_query_binary_values T '':WAV:DATA?'') (\<lambda>data.
        next_do (inst_query T ('':CHAN'' @ str_int channel @ '':SCAL?'')) (\<lambda>scale_reply.
        next_do (pure (py_float scale_reply)) (\<lambda>vertical_scale.
        next_do (inst_query T ('':CHAN'' @ str_int channel @ '':PROB?'')) (\<lambda>probe_reply.
        next_do (pure (py_float probe_reply)) (\<lambda>probe_attenuation.
        pure (get_waveform_decode data x_increment x_origin x_reference
                vertical_scale probe_attenuation))))))))))))) s)"

subsection \<open>A run of \<open>get_waveform\<close> as the instrument sees it\<close>

text \<open>
  The eight calls of the read protocol, in the order of section 4.1 of the specification:
  source, format, mode, the format query, the preamble query, the data query, and the two
  scalar queries of the channel.
\<close>

definition waveform_calls :: "handle \<Rightarrow> int \<Rightarrow> call list" where
  "waveform_calls h channel =
     [Write h ('':WAV:SOUR CHAN'' @ str_int channel),
      Write h '':WAV:FORM BYTE'',
      Write h '':WAV:MODE NORMAL'',
      Query h '':WAV:FORM?'',
      Query h '':WAV:PRE?'',
      QueryBinaryValues h '':WAV:DATA?'',
      Query h ('':CHAN'' @ str_int channel @ '':SCAL?''),
      Query h ('':CHAN'' @ str_int channel @ '':PROB?'')]"

text \<open>
  \<open>serves_preamble\<close>: the session holds the handle \<open>h\<close> and the transport answers the first
  five calls of a run started in \<open>s\<close>, the fifth with \<open>preamble\<close>. \<open>serves\<close>: it answers all
  eight, the last three with \<open>data\<close>, \<open>scale_reply\<close> and \<open>probe_reply\<close>.
\<close>

definition succeeds :: "error + 'a \<Rightarrow> bool" where
  "succeeds r = (case r of Inl e \<Rightarrow> False | Inr a \<Rightarrow> True)"

definition serves_preamble :: "transport \<Rightarrow> oscilloscope \<Rightarrow> handle \<Rightarrow> int \<Rightarrow> string \<Rightarrow> bool" where
  "serves_preamble T s h channel preamble =
     (let past = (\<lambda>k. calls s @ take k (waveform_calls h channel)) in
      inst s = Some h \<and>
      succeeds (visa_write T (past 0) h ('':WAV:SOUR CHAN'' @ str_int channel)) \<and>
      succeeds (visa_write T (past 1) h '':WAV:FORM BYTE'') \<and>
      succeeds (visa_write T (past 2) h '':WAV:MODE NORMAL'') \<and>
      succeeds (visa_query T (past 3) h '':WAV:FORM?'') \<and>
      visa_query T (past 4) h '':WAV:PRE?'' = Inr preamble)"

definition serves ::
  "transport \<Rightarrow> oscilloscope \<Rightarrow> handle \<Rightarrow> int \<Rightarrow> string \<Rightarrow> 8 word list \<Rightarrow> string \<Rightarrow> string \<Rightarrow> bool" where
  "serves T s h channel preamble data scale_reply probe_reply =
     (let past = (\<lambda>k. calls s @ take k (waveform_calls h channel)) in
      serves_preamble T s h channel preamble \<and>
      visa_query_binary_values T (past 5) h '':WAV:DATA?'' = Inr data \<and>
      visa_query T (past 6) h ('':CHAN'' @ str_int channel @ '':SCAL?'') = Inr scale_reply \<and>
      visa_query T (past 7) h ('':CHAN'' @ str_int channel @ '':PROB?'') = Inr probe_reply)"

subsection \<open>Instruments to run the methods on\<close>

text \<open>
  \<open>bench\<close> is an instrument on the bench: it opens, accepts every command and answers the
  queries of channel 1 with the given replies. \<open>unplugged\<close> cannot be opened; \<open>silent\<close>
  opens and then answers no query.
\<close>

definition bench :: "string \<Rightarrow> string \<Rightarrow> 8 word list \<Rightarrow> string \<Rightarrow> string \<Rightarrow> transport" where
  "bench idn preamble data scale probe =
     \<lparr>visa_open_resource = (\<lambda>past name. Inr (length past)),
      visa_write = (\<lambda>past h cmd. Inr ()),
      visa_query = (\<lambda>past h cmd.
         if cmd = ''*IDN?'' then Inr idn
         else if cmd = '':WAV:FORM?'' then Inr ''BYTE''
         else if cmd = '':WAV:PRE?'' then Inr preamble
         else if cmd = '':CHAN1:SCAL?'' then Inr scale
         else if cmd = '':CHAN1:PROB?'' then Inr probe
         else Inl (VisaIOError ''timeout'')),
      visa_query_binary_values = (\<lambda>past h cmd. Inr data)\<rparr>"

definition unplugged :: transport where
  "unplugged =
     \<lparr>visa_open_resource = (\<lambda>past name. Inl (VisaIOError ''resource not found'')),
      visa_write = (\<lambda>past h cmd. Inl (VisaIOError ''invalid session'')),
      visa_query = (\<lambda>past h cmd. Inl (VisaIOError ''invalid session'')),
      visa_query_binary_values = (\<lambda>past h cmd. Inl (VisaIOError ''invalid session''))\<rparr>"

definition silent :: transport where
  "silent =
     \<lparr>visa_open_resource = (\<lambda>past name. Inr (length past)),
      visa_write = (\<lambda>past h cmd. Inr ()),
      visa_query = (\<lambda>past h cmd. Inl (VisaIOError ''timeout'')),
      visa_query_binary_values = (\<lambda>past h cmd. Inl (VisaIOError ''timeout''))\<rparr>"

text \<open>The session after a successful \<open>connect\<close> to \<open>USB0\<close>.\<close>

definition connected :: oscilloscope where
  "connected = \<lparr>resource_name = ''USB0'', inst = Some 0,
                 calls = [OpenResource ''USB0'', Query 0 ''*IDN?'']\<rparr>"

section \<open>Lemmas on the sequencing and on a run of \<open>get_waveform\<close>\<close>

lemma and_then_Inr_iff: "and_then r f = Inr b \<longleftrightarrow> (\<exists>a. r = Inr a \<and> f a = Inr b)"
  by (cases r) (simp_all add: and_then_def)


lemma and_then_Inr [simp]: "and_then (Inr a) f = f a"
  by (simp add: and_then_def)

lemma and_then_Inl [simp]: "and_then (Inl e) f = Inl e"
  by (simp add: and_then_def)

lemma next_do_Inr: "m s = (Inr a, s1) \<Longrightarrow> next_do m f s = f a s1"
  by (simp add: next_do_def)

lemma next_do_Inl: "m s = (Inl e, s1) \<Longrightarrow> next_do m f s = (Inl e, s1)"
  by (simp add: next_do_def)

lemma next_do_Inr_iff:
  "next_do m f s = (Inr b, s') \<longleftrightarrow> (\<exists>a s1. m s = (Inr a, s1) \<and> f a s1 = (Inr b, s'))"
  by (auto simp: next_do_def split: prod.splits sum.splits)

lemma succeedsE: "succeeds r \<Longrightarrow> (\<And>a. r = Inr a \<Longrightarrow> P) \<Longrightarrow> P"
  by (cases r) (simp_all add: succeeds_def)

lemma inst_write_Some:
  "inst s = Some h \<Longrightarrow>
   inst_write T cmd s = (visa_write T (calls s) h cmd, s\<lparr>calls := calls s @ [Write h cmd]\<rparr>)"
  by (simp add: inst_write_def)

lemma inst_query_Some:
  "inst s = Some h \<Longrightarrow>
   inst_query T cmd s = (visa_query T (calls s) h cmd, s\<lparr>calls := calls s @ [Query h cmd]\<rparr>)"
  by (simp add: inst_query_def)

lemma inst_query_binary_values_Some:
  "inst s = Some h \<Longrightarrow>
   inst_query_binary_values T cmd s =
     (visa_query_binary_values T (calls s) h cmd, s\<lparr>calls := calls s @ [QueryBinaryValues h cmd]\<rparr>)"
  by (simp add: inst_query_binary_values_def)

lemma inst_write_Inr_iff:
  "inst_write T cmd s = (Inr u, s') \<longleftrightarrow>
   (\<exists>h. inst s = Some h \<and> visa_write T (calls s) h cmd = Inr u \<and>
        s' = s\<lparr>calls := calls s @ [Write h cmd]\<rparr>)"
  by (auto simp: inst_write_def split: option.splits)

lemma inst_query_Inr_iff:
  "inst_query T cmd s = (Inr r, s') \<longleftrightarrow>
   (\<exists>h. inst s = Some h \<and> visa_query T (calls s) h cmd = Inr r \<and>
        s' = s\<lparr>calls := calls s @ [Query h cmd]\<rparr>)"
  by (auto simp: inst_query_def split: option.splits)

lemma inst_query_binary_values_Inr_iff:
  "inst_query_binary_values T cmd s = (Inr r, s') \<longleftrightarrow>
   (\<exists>h. inst s = Some h \<and> visa_query_binary_values T (calls s) h cmd = Inr r \<and>
        s' = s\<lparr>calls := calls s @ [QueryBinaryValues h cmd]\<rparr>)"
  by (auto simp: inst_query_binary_values_def split: option.splits)

lemma pure_iff: "pure r s = (x, s') \<longleftrightarrow> x = r \<and> s' = s"
  by (auto simp: pure_def)

text \<open>The first five calls, then the conversion of the preamble.\<close>

lemma get_waveform_to_preamble:
  assumes "serves_preamble T s h channel preamble"
  shows "get_waveform T channel s =
    next_do (pure (get_waveform_preamble preamble))
          (\<lambda>(x_increment, x_origin, x_reference, y_increment, y_origin, y_reference).
        next_do (inst_query_binary_values T '':WAV:DATA?'') (\<lambda>data.
        next_do (inst_query T ('':CHAN'' @ str_int channel @ '':SCAL?'')) (\<lambda>scale_reply.
        next_do (pure (py_float scale_reply)) (\<lambda>vertical_scale.
        next_do (inst_query T ('':CHAN'' @ str_int channel @ '':PROB?'')) (\<lambda>probe_reply.
        next_do (pure (py_float probe_reply)) (\<lambda>probe_attenuation.
        pure (get_waveform_decode data x_increment x_origin x_reference
                vertical_scale probe_attenuation)))))))
      (s\<lparr>calls := calls s @ take 5 (waveform_calls h channel)\<rparr>)"
proof -
  from assms have h: "inst s = Some h"
    by (simp add: serves_preamble_def)
  from assms obtain fmt where
    w1: "visa_write T (calls s) h ('':WAV:SOUR CHAN'' @ str_int channel) = Inr ()" and
    w2: "visa_write T (calls s @ [Write h ('':WAV:SOUR CHAN'' @ str_int channel)]) h '':WAV:FORM BYTE'' = Inr ()" and
    w3: "visa_write T (calls s @ [Write h ('':WAV:SOUR CHAN'' @ str_int channel), Write h '':WAV:FORM BYTE''])
           h '':WAV:MODE NORMAL'' = Inr ()" and
    q4: "visa_query T (calls s @ [Write h ('':WAV:SOUR CHAN'' @ str_int channel), Write h '':WAV:FORM BYTE'',
           Write h '':WAV:MODE NORMAL'']) h '':WAV:FORM?'' = Inr fmt" and
    q5: "visa_query T (calls s @ [Write h ('':WAV:SOUR CHAN'' @ str_int channel), Write h '':WAV:FORM BYTE'',
           Write h '':WAV:MODE NORMAL'', Query h '':WAV:FORM?'']) h '':WAV:PRE?'' = Inr preamble"
    by (auto simp: serves_preamble_def waveform_calls_def elim!: succeedsE)
  show ?thesis
    using h w1 w2 w3 q4 q5 unfolding get_waveform_def
    by (simp add: next_do_def inst_write_def inst_query_def waveform_calls_def)
qed


lemma get_waveform_served:
  assumes "serves T s h channel preamble data scale_reply probe_reply"
    and "get_waveform_preamble preamble = Inr (xi, xo, xr, yi, yo, yr)"
    and "py_float scale_reply = Inr vs"
    and "py_float probe_reply = Inr pa"
  shows "get_waveform T channel s =
     (get_waveform_decode data xi xo xr vs pa, s\<lparr>calls := calls s @ waveform_calls h channel\<rparr>)"
proof -
  from assms(1) have p: "serves_preamble T s h channel preamble"
    by (simp add: serves_def Let_def)
  then have h: "inst s = Some h"
    by (simp add: serves_preamble_def)
  from assms(1) have
    q6: "visa_query_binary_values T (calls s @ take 5 (waveform_calls h channel)) h '':WAV:DATA?'' = Inr data" and
    q7: "visa_query T (calls s @ take 6 (waveform_calls h channel)) h ('':CHAN'' @ str_int channel @ '':SCAL?'')
           = Inr scale_reply" and
    q8: "visa_query T (calls s @ take 7 (waveform_calls h channel)) h ('':CHAN'' @ str_int channel @ '':PROB?'')
           = Inr probe_reply"
    by (simp_all add: serves_def Let_def)
  show ?thesis
    using q6 q7 q8 h assms(2-4) unfolding get_waveform_to_preamble [OF p]
    by (simp add: next_do_def pure_def inst_query_def inst_query_binary_values_def
        waveform_calls_def)
qed

lemma get_waveform_Inr_served:
  assumes "get_waveform T channel s = (Inr r, s')"
  shows "\<exists>h preamble data scale_reply probe_reply xi xo xr yi yo yr vs pa.
           serves T s h channel preamble data scale_reply probe_reply \<and>
           get_waveform_preamble preamble = Inr (xi, xo, xr, yi, yo, yr) \<and>
           py_float scale_reply = Inr vs \<and> py_float probe_reply = Inr pa \<and>
           get_waveform_decode data xi xo xr vs pa = Inr r \<and>
           s' = s\<lparr>calls := calls s @ waveform_calls h channel\<rparr>"
proof -
  from assms obtain h where h: "inst s = Some h"
    by (cases "inst s") (auto simp: get_waveform_def)
  from assms h show ?thesis
    unfolding get_waveform_def
    apply (simp add: next_do_Inr_iff inst_write_Inr_iff inst_query_Inr_iff
        inst_query_binary_values_Inr_iff pure_iff split: prod.splits)
    apply (elim exE conjE)
    apply (simp add: serves_def serves_preamble_def waveform_calls_def succeeds_def)
    apply (intro exI conjI)
      apply (erule sym)
     apply (erule sym)
    apply (erule sym)
    apply (rule refl)
    done
qed

subsection \<open>The conversion of the preamble\<close>








lemma get_waveform_preamble_Inr_iff:
  "get_waveform_preamble preamble = Inr (xi, xo, xr, yi, yo, yr) \<longleftrightarrow>
   (\<exists>f0 f1 f2 f3 f4 f5 f6 f7 f8 f9 a b.
      take 10 (str_split CHR '','' (str_strip preamble)) = [f0, f1, f2, f3, f4, f5, f6, f7, f8, f9] \<and>
      py_float f4 = Inr xi \<and> py_float f5 = Inr xo \<and> py_float f6 = Inr a \<and> py_int a = Inr xr \<and>
      py_float f7 = Inr yi \<and> py_float f8 = Inr yo \<and> py_float f9 = Inr b \<and> py_int b = Inr yr)"
  unfolding get_waveform_preamble_def Let_def
  by (auto simp: and_then_Inr_iff split: list.splits)


subsection \<open>The instruments of the examples\<close>


lemma str_int_1: "str_int 1 = ''1''"
  by code_simp

lemma bench_serves:
  "serves (bench idn preamble data scale probe) connected 0 1 preamble data scale probe"
  by (simp add: serves_def serves_preamble_def bench_def connected_def waveform_calls_def
      succeeds_def str_int_1)

lemma py_float_1e_6: "py_float ''1e-6'' = Inr (Finite (4722366482869645 / 2 ^ 72))"
  by code_simp


lemma py_float_one: "py_float ''1.0'' = Inr (Finite 1)"
  by code_simp

lemma py_float_zero: "py_float ''0'' = Inr (Finite 0)"
  by code_simp

lemma preamble_scenario:
  "get_waveform_preamble ''0,0,3,1,1e-6,0,0,1,0,0'' =
     Inr (Finite (4722366482869645 / 2 ^ 72), Finite 0, 0, Finite 1, Finite 0, 0)"
  by code_simp

lemma decode_scenario:
  "get_waveform_decode [130, 155, 105] (Finite (4722366482869645 / 2 ^ 72)) (Finite 0) 0
     (Finite 1) (Finite 1) =
   Inr ([Finite 0, Finite (4722366482869645 / 2 ^ 72), Finite (4722366482869645 / 2 ^ 71)],
        [Finite 0, Finite 1, Finite (- 1)])"
  by code_simp

lemma preamble_1200:
  "get_waveform_preamble ''0,0,1200,1,1e-6,0,0,1,0,0'' =
     Inr (Finite (4722366482869645 / 2 ^ 72), Finite 0, 0, Finite 1, Finite 0, 0)"
  by code_simp







lemma get_waveform_scenario:
  "get_waveform (bench ''RIGOL'' ''0,0,3,1,1e-6,0,0,1,0,0'' [130, 155, 105] ''1.0'' ''1.0'') 1 connected =
     (Inr ([Finite 0, Finite (4722366482869645 / 2 ^ 72), Finite (4722366482869645 / 2 ^ 71)],
           [Finite 0, Finite 1, Finite (- 1)]),
      connected\<lparr>calls := calls connected @ waveform_calls 0 1\<rparr>)"
  by (simp only: get_waveform_served [OF bench_serves preamble_scenario py_float_one py_float_one]
      decode_scenario)

lemma fields_27:
  "take 10 (str_split CHR '','' (str_strip ''0,0,3,1,1e-6,0,2.7,1,0,-2.7'')) =
     [''0'', ''0'', ''3'', ''1'', ''1e-6'', ''0'', ''2.7'', ''1'', ''0'', ''-2.7'']"
  by code_simp

lemma py_float_27: "py_float ''2.7'' = Inr (Finite (3039929748475085 / 2 ^ 50))"
  by code_simp

lemma py_float_m27: "py_float ''-2.7'' = Inr (Finite (- 3039929748475085 / 2 ^ 50))"
  by code_simp

lemma py_float_one_digit: "py_float ''1'' = Inr (Finite 1)"
  by code_simp

lemma decode_27:
  "get_waveform_decode [130, 155, 105] (Finite (4722366482869645 / 2 ^ 72)) (Finite 0) 2
     (Finite 1) (Finite 1) =
   Inr ([Finite (- (4722366482869645 / 2 ^ 71)), Finite (- (4722366482869645 / 2 ^ 72)), Finite 0],
        [Finite 0, Finite 1, Finite (- 1)])"
  by code_simp

lemma floor_rat_numeral: "\<lfloor>numeral m / numeral n :: rat\<rfloor> = numeral m div numeral n"
  using floor_divide_of_int_eq [of "numeral m" "numeral n", where ?'a = rat]
  by simp

section \<open>Properties\<close>

subsection \<open>Decoding\<close>



text \<open>
  C2. A run of \<open>get_waveform\<close> that the transport serves, with a preamble that converts,
  replies for scale and attenuation that convert, and an attenuation that is not zero,
  returns a time and a voltage sequence that both have the length of the raw block; and
  in every run that returns, both have the length of the raw block received. The field
  \<open>points\<close> of the preamble appears in no condition: it is never compared with that
  length.
\<close>

theorem get_waveform_lengths:
  "(serves T s h channel preamble data scale_reply probe_reply \<and>
    get_waveform_preamble preamble = Inr (xi, xo, xr, yi, yo, yr) \<and>
    py_float scale_reply = Inr vs \<and> py_float probe_reply = Inr pa \<and>
    pa \<noteq> Finite 0 \<and> - (2 ^ 63) \<le> xr \<and> xr < 2 ^ 63 \<longrightarrow>
    (\<exists>time voltage.
       get_waveform T channel s = (Inr (time, voltage), s\<lparr>calls := calls s @ waveform_calls h channel\<rparr>) \<and>
       length time = length data \<and> length voltage = length data)) \<and>
   (get_waveform T channel s = (Inr (time', voltage'), s') \<longrightarrow>
    (\<exists>h data.
       inst s = Some h \<and>
       visa_query_binary_values T (calls s @ take 5 (waveform_calls h channel)) h '':WAV:DATA?'' = Inr data \<and>
       length time' = length data \<and> length voltage' = length data))"
proof (intro conjI impI)
  assume a: "serves T s h channel preamble data scale_reply probe_reply \<and>
    get_waveform_preamble preamble = Inr (xi, xo, xr, yi, yo, yr) \<and>
    py_float scale_reply = Inr vs \<and> py_float probe_reply = Inr pa \<and>
    pa \<noteq> Finite 0 \<and> - (2 ^ 63) \<le> xr \<and> xr < 2 ^ 63"
  then have g: "get_waveform T channel s =
      (get_waveform_decode data xi xo xr vs pa, s\<lparr>calls := calls s @ waveform_calls h channel\<rparr>)"
    by (blast intro: get_waveform_served)
  from a obtain time voltage where
    "get_waveform_decode data xi xo xr vs pa = Inr (time, voltage)"
    "length time = length data" "length voltage = length data"
    by (auto simp: get_waveform_decode_def py_truediv_def np_sub_int_def np_arange_def Let_def)
  with g show "\<exists>time voltage.
       get_waveform T channel s = (Inr (time, voltage), s\<lparr>calls := calls s @ waveform_calls h channel\<rparr>) \<and>
       length time = length data \<and> length voltage = length data"
    by simp
next
  assume "get_waveform T channel s = (Inr (time', voltage'), s')"
  from get_waveform_Inr_served [OF this] obtain h preamble data scale_reply probe_reply xi xo xr yi yo yr vs pa where
    sv: "serves T s h channel preamble data scale_reply probe_reply" and
    d: "get_waveform_decode data xi xo xr vs pa = Inr (time', voltage')"
    by (elim exE conjE)
  from sv have "inst s = Some h"
    and "visa_query_binary_values T (calls s @ take 5 (waveform_calls h channel)) h '':WAV:DATA?'' = Inr data"
    by (simp_all add: serves_def serves_preamble_def Let_def)
  moreover from d have "length time' = length data \<and> length voltage' = length data"
    by (auto simp: get_waveform_decode_def and_then_Inr_iff np_sub_int_def np_arange_def Let_def
        split: if_splits)
  ultimately show "\<exists>h data.
       inst s = Some h \<and>
       visa_query_binary_values T (calls s @ take 5 (waveform_calls h channel)) h '':WAV:DATA?'' = Inr data \<and>
       length time' = length data \<and> length voltage' = length data"
    by blast
qed


theorem get_waveform_lengths_witness:
  "serves (bench ''RIGOL'' ''0,0,1200,1,1e-6,0,0,1,0,0'' [130, 155, 105] ''1.0'' ''1.0'') connected 0 1
     ''0,0,1200,1,1e-6,0,0,1,0,0'' [130, 155, 105] ''1.0'' ''1.0'' \<and>
   get_waveform_preamble ''0,0,1200,1,1e-6,0,0,1,0,0'' =
     Inr (Finite (4722366482869645 / 2 ^ 72), Finite 0, 0, Finite 1, Finite 0, 0) \<and>
   py_float ''1.0'' = Inr (Finite 1) \<and> Finite 1 \<noteq> Finite 0 \<and>
   - (2 ^ 63) \<le> (0::int) \<and> (0::int) < 2 ^ 63 \<and>
   (\<exists>time voltage.
      fst (get_waveform (bench ''RIGOL'' ''0,0,1200,1,1e-6,0,0,1,0,0'' [130, 155, 105] ''1.0'' ''1.0'') 1
             connected) = Inr (time, voltage) \<and>
      length time = 3 \<and> length voltage = 3)"
proof -
  have hyp: "serves (bench ''RIGOL'' ''0,0,1200,1,1e-6,0,0,1,0,0'' [130, 155, 105] ''1.0'' ''1.0'') connected 0 1
     ''0,0,1200,1,1e-6,0,0,1,0,0'' [130, 155, 105] ''1.0'' ''1.0'' \<and>
   get_waveform_preamble ''0,0,1200,1,1e-6,0,0,1,0,0'' =
     Inr (Finite (4722366482869645 / 2 ^ 72), Finite 0, 0, Finite 1, Finite 0, 0) \<and>
   py_float ''1.0'' = Inr (Finite 1) \<and> py_float ''1.0'' = Inr (Finite 1) \<and> Finite 1 \<noteq> Finite 0 \<and>
   - (2 ^ 63) \<le> (0::int) \<and> (0::int) < 2 ^ 63"
    by (simp add: bench_serves preamble_1200 py_float_one)
  with get_waveform_lengths [of "bench ''RIGOL'' ''0,0,1200,1,1e-6,0,0,1,0,0'' [130, 155, 105] ''1.0'' ''1.0''"
      connected 0 1 "''0,0,1200,1,1e-6,0,0,1,0,0''" "[130, 155, 105]" "''1.0''" "''1.0''"
      "Finite (4722366482869645 / 2 ^ 72)" "Finite 0" 0 "Finite 1" "Finite 0" 0 "Finite 1" "Finite 1"]
  obtain time voltage where
    "get_waveform (bench ''RIGOL'' ''0,0,1200,1,1e-6,0,0,1,0,0'' [130, 155, 105] ''1.0'' ''1.0'') 1 connected =
      (Inr (time, voltage), connected\<lparr>calls := calls connected @ waveform_calls 0 1\<rparr>)"
    "length time = length [130, 155, 105 :: 8 word]" "length voltage = length [130, 155, 105 :: 8 word]"
    by blast
  then have "fst (get_waveform (bench ''RIGOL'' ''0,0,1200,1,1e-6,0,0,1,0,0'' [130, 155, 105] ''1.0'' ''1.0'') 1
             connected) = Inr (time, voltage) \<and> length time = 3 \<and> length voltage = 3"
    by simp
  with hyp show ?thesis
    by blast
qed

subsection \<open>The read protocol\<close>

text \<open>
  C7. Every call of \<open>get_waveform\<close> that returns has made exactly eight calls on the
  handle of the session, in this order: the source select for the channel, the byte
  format, the normal mode, the format query, the preamble query, the binary data query,
  and the scale and the probe queries of the channel. What it returns is the conversion
  of the replies to the last four; the reply to the format query has no part in it.
\<close>

theorem get_waveform_call_order:
  assumes "get_waveform T channel s = (Inr r, s')"
  shows "\<exists>h. inst s = Some h \<and>
           calls s' = calls s @
             [Write h ('':WAV:SOUR CHAN'' @ str_int channel),
              Write h '':WAV:FORM BYTE'',
              Write h '':WAV:MODE NORMAL'',
              Query h '':WAV:FORM?'',
              Query h '':WAV:PRE?'',
              QueryBinaryValues h '':WAV:DATA?'',
              Query h ('':CHAN'' @ str_int channel @ '':SCAL?''),
              Query h ('':CHAN'' @ str_int channel @ '':PROB?'')] \<and>
           (\<exists>preamble data scale_reply probe_reply xi xo xr yi yo yr vs pa.
              visa_query T (calls s @ take 4 (waveform_calls h channel)) h '':WAV:PRE?'' = Inr preamble \<and>
              visa_query_binary_values T (calls s @ take 5 (waveform_calls h channel)) h '':WAV:DATA?'' =
                Inr data \<and>
              visa_query T (calls s @ take 6 (waveform_calls h channel)) h
                ('':CHAN'' @ str_int channel @ '':SCAL?'') = Inr scale_reply \<and>
              visa_query T (calls s @ take 7 (waveform_calls h channel)) h
                ('':CHAN'' @ str_int channel @ '':PROB?'') = Inr probe_reply \<and>
              get_waveform_preamble preamble = Inr (xi, xo, xr, yi, yo, yr) \<and>
              py_float scale_reply = Inr vs \<and> py_float probe_reply = Inr pa \<and>
              get_waveform_decode data xi xo xr vs pa = Inr r)"
proof -
  from get_waveform_Inr_served [OF assms]
  obtain h preamble data scale_reply probe_reply xi xo xr yi yo yr vs pa where
    sv: "serves T s h channel preamble data scale_reply probe_reply" and
    p: "get_waveform_preamble preamble = Inr (xi, xo, xr, yi, yo, yr)" and
    f: "py_float scale_reply = Inr vs" "py_float probe_reply = Inr pa" and
    d: "get_waveform_decode data xi xo xr vs pa = Inr r" and
    s': "s' = s\<lparr>calls := calls s @ waveform_calls h channel\<rparr>"
    by (elim exE conjE)
  from sv have h: "inst s = Some h"
    by (simp add: serves_def serves_preamble_def Let_def)
  from s' have c: "calls s' = calls s @
             [Write h ('':WAV:SOUR CHAN'' @ str_int channel),
              Write h '':WAV:FORM BYTE'',
              Write h '':WAV:MODE NORMAL'',
              Query h '':WAV:FORM?'',
              Query h '':WAV:PRE?'',
              QueryBinaryValues h '':WAV:DATA?'',
              Query h ('':CHAN'' @ str_int channel @ '':SCAL?''),
              Query h ('':CHAN'' @ str_int channel @ '':PROB?'')]"
    by (simp add: waveform_calls_def)
  from sv have q:
    "visa_query T (calls s @ take 4 (waveform_calls h channel)) h '':WAV:PRE?'' = Inr preamble"
    "visa_query_binary_values T (calls s @ take 5 (waveform_calls h channel)) h '':WAV:DATA?'' = Inr data"
    "visa_query T (calls s @ take 6 (waveform_calls h channel)) h
       ('':CHAN'' @ str_int channel @ '':SCAL?'') = Inr scale_reply"
    "visa_query T (calls s @ take 7 (waveform_calls h channel)) h
       ('':CHAN'' @ str_int channel @ '':PROB?'') = Inr probe_reply"
    by (simp_all add: serves_def serves_preamble_def Let_def)
  from h c q p f d show ?thesis
    by blast
qed

theorem get_waveform_call_order_witness:
  "get_waveform (bench ''RIGOL'' ''0,0,3,1,1e-6,0,0,1,0,0'' [130, 155, 105] ''1.0'' ''1.0'') 1 connected =
     (Inr ([Finite 0, Finite (4722366482869645 / 2 ^ 72), Finite (4722366482869645 / 2 ^ 71)],
           [Finite 0, Finite 1, Finite (- 1)]),
      connected\<lparr>calls := calls connected @ waveform_calls 0 1\<rparr>) \<and>
   calls (connected\<lparr>calls := calls connected @ waveform_calls 0 1\<rparr>) =
     [OpenResource ''USB0'', Query 0 ''*IDN?'',
      Write 0 '':WAV:SOUR CHAN1'', Write 0 '':WAV:FORM BYTE'', Write 0 '':WAV:MODE NORMAL'',
      Query 0 '':WAV:FORM?'', Query 0 '':WAV:PRE?'', QueryBinaryValues 0 '':WAV:DATA?'',
      Query 0 '':CHAN1:SCAL?'', Query 0 '':CHAN1:PROB?'']"
proof -
  from get_waveform_call_order [OF get_waveform_scenario]
  obtain h where "inst connected = Some h"
    "calls (connected\<lparr>calls := calls connected @ waveform_calls 0 1\<rparr>) = calls connected @
             [Write h ('':WAV:SOUR CHAN'' @ str_int 1),
              Write h '':WAV:FORM BYTE'',
              Write h '':WAV:MODE NORMAL'',
              Query h '':WAV:FORM?'',
              Query h '':WAV:PRE?'',
              QueryBinaryValues h '':WAV:DATA?'',
              Query h ('':CHAN'' @ str_int 1 @ '':SCAL?''),
              Query h ('':CHAN'' @ str_int 1 @ '':PROB?'')]"
    by blast
  then have "calls (connected\<lparr>calls := calls connected @ waveform_calls 0 1\<rparr>) =
     [OpenResource ''USB0'', Query 0 ''*IDN?'',
      Write 0 '':WAV:SOUR CHAN1'', Write 0 '':WAV:FORM BYTE'', Write 0 '':WAV:MODE NORMAL'',
      Query 0 '':WAV:FORM?'', Query 0 '':WAV:PRE?'', QueryBinaryValues 0 '':WAV:DATA?'',
      Query 0 '':CHAN1:SCAL?'', Query 0 '':CHAN1:PROB?'']"
    by (simp add: connected_def str_int_1)
  with get_waveform_scenario show ?thesis
    by blast
qed

text \<open>
  C8. With a probe attenuation of zero the conversion raises \<open>ZeroDivisionError\<close>, an
  arithmetic error, whatever the other inputs are: the division of the vertical scale by
  the attenuation is the step that raises, and no sequence is returned. So does the run
  of \<open>get_waveform\<close> whose probe reply converts to zero.
\<close>

theorem zero_attenuation_raises:
  "py_truediv vertical_scale (Finite 0) = Inl ZeroDivisionError \<and>
   get_waveform_decode data x_increment x_origin x_reference vertical_scale (Finite 0) =
     Inl ZeroDivisionError \<and>
   (serves T s h channel preamble data scale_reply probe_reply \<and>
    get_waveform_preamble preamble = Inr (x_increment, x_origin, x_reference, y_increment, y_origin, y_reference) \<and>
    py_float scale_reply = Inr vertical_scale \<and> py_float probe_reply = Inr (Finite 0) \<longrightarrow>
    get_waveform T channel s =
      (Inl ZeroDivisionError, s\<lparr>calls := calls s @ waveform_calls h channel\<rparr>))"
proof (intro conjI impI)
  show "py_truediv vertical_scale (Finite 0) = Inl ZeroDivisionError"
    by (simp add: py_truediv_def)
  then show d: "get_waveform_decode data x_increment x_origin x_reference vertical_scale (Finite 0) =
     Inl ZeroDivisionError"
    by (simp add: get_waveform_decode_def)
  assume "serves T s h channel preamble data scale_reply probe_reply \<and>
    get_waveform_preamble preamble = Inr (x_increment, x_origin, x_reference, y_increment, y_origin, y_reference) \<and>
    py_float scale_reply = Inr vertical_scale \<and> py_float probe_reply = Inr (Finite 0)"
  then have "get_waveform T channel s =
      (get_waveform_decode data x_increment x_origin x_reference vertical_scale (Finite 0),
       s\<lparr>calls := calls s @ waveform_calls h channel\<rparr>)"
    by (blast intro: get_waveform_served)
  with d show "get_waveform T channel s =
      (Inl ZeroDivisionError, s\<lparr>calls := calls s @ waveform_calls h channel\<rparr>)"
    by simp
qed

theorem zero_attenuation_raises_witness:
  "serves (bench ''RIGOL'' ''0,0,3,1,1e-6,0,0,1,0,0'' [130, 155, 105] ''1.0'' ''0'') connected 0 1
     ''0,0,3,1,1e-6,0,0,1,0,0'' [130, 155, 105] ''1.0'' ''0'' \<and>
   get_waveform_preamble ''0,0,3,1,1e-6,0,0,1,0,0'' =
     Inr (Finite (4722366482869645 / 2 ^ 72), Finite 0, 0, Finite 1, Finite 0, 0) \<and>
   py_float ''1.0'' = Inr (Finite 1) \<and> py_float ''0'' = Inr (Finite 0) \<and>
   get_waveform (bench ''RIGOL'' ''0,0,3,1,1e-6,0,0,1,0,0'' [130, 155, 105] ''1.0'' ''0'') 1 connected =
     (Inl ZeroDivisionError, connected\<lparr>calls := calls connected @ waveform_calls 0 1\<rparr>)"
proof -
  have hyp: "serves (bench ''RIGOL'' ''0,0,3,1,1e-6,0,0,1,0,0'' [130, 155, 105] ''1.0'' ''0'') connected 0 1
     ''0,0,3,1,1e-6,0,0,1,0,0'' [130, 155, 105] ''1.0'' ''0'' \<and>
   get_waveform_preamble ''0,0,3,1,1e-6,0,0,1,0,0'' =
     Inr (Finite (4722366482869645 / 2 ^ 72), Finite 0, 0, Finite 1, Finite 0, 0) \<and>
   py_float ''1.0'' = Inr (Finite 1) \<and> py_float ''0'' = Inr (Finite 0)"
    by (simp only: bench_serves preamble_scenario py_float_one py_float_zero simp_thms)
  with zero_attenuation_raises [of "Finite 1" "[130, 155, 105]" "Finite (4722366482869645 / 2 ^ 72)"
      "Finite 0" 0 "bench ''RIGOL'' ''0,0,3,1,1e-6,0,0,1,0,0'' [130, 155, 105] ''1.0'' ''0''"
      connected 0 1 "''0,0,3,1,1e-6,0,0,1,0,0''" "''1.0''" "''0''" "Finite 1" "Finite 0" 0]
  have "get_waveform (bench ''RIGOL'' ''0,0,3,1,1e-6,0,0,1,0,0'' [130, 155, 105] ''1.0'' ''0'') 1 connected =
     (Inl ZeroDivisionError, connected\<lparr>calls := calls connected @ waveform_calls 0 1\<rparr>)"
    by blast
  with hyp show ?thesis
    by blast
qed

subsection \<open>The preamble\<close>




text \<open>
  C10. The reference fields are converted by \<open>int(float(field))\<close>: when the fields 4 to 9
  are accepted by \<open>float\<close> and the two reference fields are finite, the preamble is
  accepted whether or not they are whole numbers, \<open>x_reference\<close> and \<open>y_reference\<close> are
  their values truncated towards zero, and the run converts the raw bytes with that
  \<open>x_reference\<close>. The fields \<open>2.7\<close> and \<open>-2.7\<close> give 2 and -2.
\<close>

theorem reference_fields_truncated:
  assumes "serves T s h channel preamble data scale_reply probe_reply"
    and "take 10 (str_split CHR '','' (str_strip preamble)) = [f0, f1, f2, f3, f4, f5, f6, f7, f8, f9]"
    and "py_float f4 = Inr x_increment" and "py_float f5 = Inr x_origin"
    and "py_float f6 = Inr (Finite a)"
    and "py_float f7 = Inr y_increment" and "py_float f8 = Inr y_origin"
    and "py_float f9 = Inr (Finite b)"
    and "py_float scale_reply = Inr vertical_scale" and "py_float probe_reply = Inr probe_attenuation"
  shows "get_waveform_preamble preamble =
           Inr (x_increment, x_origin, (if 0 \<le> a then \<lfloor>a\<rfloor> else - \<lfloor>- a\<rfloor>),
                y_increment, y_origin, (if 0 \<le> b then \<lfloor>b\<rfloor> else - \<lfloor>- b\<rfloor>)) \<and>
         get_waveform T channel s =
           (get_waveform_decode data x_increment x_origin (if 0 \<le> a then \<lfloor>a\<rfloor> else - \<lfloor>- a\<rfloor>)
              vertical_scale probe_attenuation,
            s\<lparr>calls := calls s @ waveform_calls h channel\<rparr>)"
proof -
  have p: "get_waveform_preamble preamble =
           Inr (x_increment, x_origin, (if 0 \<le> a then \<lfloor>a\<rfloor> else - \<lfloor>- a\<rfloor>),
                y_increment, y_origin, (if 0 \<le> b then \<lfloor>b\<rfloor> else - \<lfloor>- b\<rfloor>))"
    unfolding get_waveform_preamble_Inr_iff
    using assms(2-8) by simp
  from get_waveform_served [OF assms(1) p assms(9) assms(10)] p show ?thesis
    by simp
qed

theorem reference_fields_truncated_witness:
  "get_waveform_preamble ''0,0,3,1,1e-6,0,2.7,1,0,-2.7'' =
     Inr (Finite (4722366482869645 / 2 ^ 72), Finite 0, 2, Finite 1, Finite 0, - 2) \<and>
   get_waveform (bench ''RIGOL'' ''0,0,3,1,1e-6,0,2.7,1,0,-2.7'' [130, 155, 105] ''1.0'' ''1.0'') 1 connected =
     (Inr ([Finite (- (4722366482869645 / 2 ^ 71)), Finite (- (4722366482869645 / 2 ^ 72)), Finite 0],
           [Finite 0, Finite 1, Finite (- 1)]),
      connected\<lparr>calls := calls connected @ waveform_calls 0 1\<rparr>)"
  using reference_fields_truncated
      [OF bench_serves [of "''RIGOL''" "''0,0,3,1,1e-6,0,2.7,1,0,-2.7''" "[130, 155, 105]" "''1.0''" "''1.0''"]
       fields_27 py_float_1e_6 py_float_zero py_float_27
       py_float_one_digit py_float_zero py_float_m27 py_float_one py_float_one]
    decode_27
  by (simp add: floor_rat_numeral)

subsection \<open>Calls on a session that is not connected\<close>

text \<open>
  C4. On a session without a handle no method sends anything, and each raises; but only
  \<open>get_waveform\<close> has the guard that raises the exception of the program, \<open>Oscilloscope
  not connected.\<close> The four setters have none: what they raise is the \<open>AttributeError\<close> of
  calling \<open>write\<close> on \<open>None\<close>.
\<close>

theorem setters_without_guard:
  "set_channel T channel (s\<lparr>inst := None\<rparr>) = (Inl AttributeError, s\<lparr>inst := None\<rparr>) \<and>
   set_timebase str_float T time_per_div (s\<lparr>inst := None\<rparr>) = (Inl AttributeError, s\<lparr>inst := None\<rparr>) \<and>
   set_voltage_scale str_float T channel volts_per_div (s\<lparr>inst := None\<rparr>) =
     (Inl AttributeError, s\<lparr>inst := None\<rparr>) \<and>
   set_trigger str_float T mode source slope level (s\<lparr>inst := None\<rparr>) =
     (Inl AttributeError, s\<lparr>inst := None\<rparr>) \<and>
   get_waveform T channel (s\<lparr>inst := None\<rparr>) =
     (Inl (Exception ''Oscilloscope not connected.''), s\<lparr>inst := None\<rparr>)"
  by (simp add: set_channel_def set_timebase_def set_voltage_scale_def set_trigger_def
      get_waveform_def inst_write_def next_do_def)

subsection \<open>Connecting\<close>

text \<open>
  When the resource opens and the identity query then times out, \<open>connect\<close> raises, and
  the handle it opened stays in \<open>self.inst\<close>: the session is not left disconnected.
\<close>

theorem connect_failure_counterexample:
  "connect silent (init ''USB0'') =
     (Inl (VisaIOError ''timeout''),
      \<lparr>resource_name = ''USB0'', inst = Some 0, calls = [OpenResource ''USB0'', Query 0 ''*IDN?'']\<rparr>)"
  by (simp add: connect_def silent_def init_def inst_query_def next_do_def)

text \<open>
  C5, amended. A \<open>connect\<close> that fails because the resource cannot be opened raises the
  exception of the transport and leaves \<open>self.inst\<close> as it was, so a disconnected session
  stays disconnected; the only call made is the opening. A \<open>connect\<close> that fails because
  the identity query raises also raises the exception of the transport, and keeps the
  handle it opened in \<open>self.inst\<close>.
\<close>

theorem connect_failure:
  "(visa_open_resource T (calls s) (resource_name s) = Inl e \<longrightarrow>
      connect T s = (Inl e, s\<lparr>calls := calls s @ [OpenResource (resource_name s)]\<rparr>)) \<and>
   (visa_open_resource T (calls s) (resource_name s) = Inr h \<and>
    visa_query T (calls s @ [OpenResource (resource_name s)]) h ''*IDN?'' = Inl e \<longrightarrow>
      connect T s =
        (Inl e, s\<lparr>inst := Some h,
                  calls := calls s @ [OpenResource (resource_name s), Query h ''*IDN?'']\<rparr>))"
  by (simp add: connect_def inst_query_def next_do_def Let_def)

theorem connect_failure_witness:
  "visa_open_resource unplugged (calls (init ''USB0'')) (resource_name (init ''USB0'')) =
     Inl (VisaIOError ''resource not found'') \<and>
   connect unplugged (init ''USB0'') =
     (Inl (VisaIOError ''resource not found''),
      \<lparr>resource_name = ''USB0'', inst = None, calls = [OpenResource ''USB0'']\<rparr>) \<and>
   visa_open_resource silent (calls (init ''USB0'')) (resource_name (init ''USB0'')) = Inr 0 \<and>
   visa_query silent (calls (init ''USB0'') @ [OpenResource (resource_name (init ''USB0''))]) 0 ''*IDN?'' =
     Inl (VisaIOError ''timeout'') \<and>
   connect silent (init ''USB0'') =
     (Inl (VisaIOError ''timeout''),
      \<lparr>resource_name = ''USB0'', inst = Some 0, calls = [OpenResource ''USB0'', Query 0 ''*IDN?'']\<rparr>)"
  using connect_failure [of unplugged "init ''USB0''" "VisaIOError ''resource not found''"]
    connect_failure [of silent "init ''USB0''" "VisaIOError ''timeout''" 0]
  by (simp add: unplugged_def silent_def init_def)

text \<open>
  The instrument answers the identity query with its name; \<open>connect\<close> returns \<open>None\<close>, not
  that name.
\<close>

theorem connect_returns_counterexample:
  "visa_query (bench ''RIGOL TECHNOLOGIES,DS1104Z'' [] [] [] []) [OpenResource ''USB0''] 0 ''*IDN?'' =
     Inr ''RIGOL TECHNOLOGIES,DS1104Z'' \<and>
   fst (connect (bench ''RIGOL TECHNOLOGIES,DS1104Z'' [] [] [] []) (init ''USB0'')) = Inr None \<and>
   fst (connect (bench ''RIGOL TECHNOLOGIES,DS1104Z'' [] [] [] []) (init ''USB0'')) \<noteq>
     Inr (Some ''RIGOL TECHNOLOGIES,DS1104Z'')"
  by (simp add: connect_def bench_def init_def inst_query_def next_do_def pure_def)

text \<open>
  C6, amended. \<open>connect\<close> returns exactly when the resource opens and the identity query
  is answered. It has then made two calls, the opening and the query \<open>*IDN?\<close> on the new
  handle, it holds that handle in \<open>self.inst\<close>, and its return value is \<open>None\<close>: the
  identity string is not returned.
\<close>

theorem connect_success:
  "connect T s = (Inr r, s') \<longleftrightarrow>
   (\<exists>h idn.
      visa_open_resource T (calls s) (resource_name s) = Inr h \<and>
      visa_query T (calls s @ [OpenResource (resource_name s)]) h ''*IDN?'' = Inr idn \<and>
      r = None \<and>
      s' = s\<lparr>inst := Some h, calls := calls s @ [OpenResource (resource_name s), Query h ''*IDN?'']\<rparr>)"
  by (auto simp: connect_def inst_query_def next_do_def pure_def Let_def split: sum.splits)

theorem connect_success_witness:
  "connect (bench ''RIGOL TECHNOLOGIES,DS1104Z'' [] [] [] []) (init ''USB0'') = (Inr None, connected)"
proof -
  have "\<exists>h idn.
      visa_open_resource (bench ''RIGOL TECHNOLOGIES,DS1104Z'' [] [] [] []) (calls (init ''USB0''))
        (resource_name (init ''USB0'')) = Inr h \<and>
      visa_query (bench ''RIGOL TECHNOLOGIES,DS1104Z'' [] [] [] [])
        (calls (init ''USB0'') @ [OpenResource (resource_name (init ''USB0''))]) h ''*IDN?'' = Inr idn \<and>
      (None :: string option) = None \<and>
      connected = (init ''USB0'')\<lparr>inst := Some h,
        calls := calls (init ''USB0'') @ [OpenResource (resource_name (init ''USB0'')), Query h ''*IDN?'']\<rparr>"
    by (simp add: bench_def init_def connected_def)
  then show ?thesis
    by (simp only: connect_success)
qed

subsection \<open>Disconnecting\<close>



end
